theory Spec2Isabelle
  imports Complex_Main
begin

section \<open>The alpha-tuning notebook of the Koda retriever pack\<close>

text \<open>
  The source is one Jupyter notebook, \<^verbatim>\<open>examples/alpha_tuning.ipynb\<close>. Its code cells
  are a straight-line Python script: they build third-party clients, write the category
  table down as a dict literal, construct a \<^verbatim>\<open>KodaRetriever\<close> over it, call
  \<^verbatim>\<open>retrieve\<close> once and \<^verbatim>\<open>query\<close> once. Two cells carry a recorded output.

  The script is embedded statement by statement as a function on the notebook's variables.
  Every call into a library is appended to a log, so that what the notebook asks of the
  libraries can be read off a run. The libraries themselves are not part of the source.
\<close>

subsection \<open>Python values\<close>

text \<open>
  The values the dict literals hold. A float literal is kept as the decimal number it is
  written as (\<^verbatim>\<open>0.2\<close> is \<open>2 / 10\<close>), an int literal as an integer.
\<close>

datatype pyval =
    PyInt int
  | PyFloat rat
  | PyStr string
  | PyStrList "string list"

text \<open>A dict with string keys, in the order it is written.\<close>

type_synonym pydict = "(string \<times> pyval) list"

type_synonym category_table = "(string \<times> pydict) list"

subsection \<open>The category table (cell 4)\<close>

definition categories :: category_table where
  "categories =
    [(''concept seeking query'',
        [(''alpha'', PyFloat 0.2),
         (''description'', PyStr ''Abstract questions, usually on a specific topic, that require multiple sentences to answer''),
         (''examples'', PyStrList
            [''What is the dual-encoder architecture used in recent works on dense retrievers?'',
             ''Why should I use semantic search to rank results?''])]),
     (''fact seeking query'',
        [(''alpha'', PyFloat 0.6),
         (''description'', PyStr ''Queries with a single, clear answer''),
         (''examples'', PyStrList
            [''What is the total number of propositions the English Wikipedia dump is segmented into in FACTOID WIKI?'',
             ''How many documents are semantically ranked?''])]),
     (''queries with misspellings'',
        [(''alpha'', PyInt 1),
         (''description'', PyStr ''Queries with typos, transpositions and common misspellings introduced''),
         (''examples'', PyStrList
            [''What is the advntage of prposition retrieval over sentnce or passage retrieval?'',
             ''Ho w mny documents are samantically r4nked''])])]"

text \<open>
  Reading an entry: \<^verbatim>\<open>entry["alpha"]\<close> as a number (\<open>None\<close> when the key is absent or
  holds no number), and whether a key is present.
\<close>

definition alpha_of :: "pydict \<Rightarrow> rat option" where
  "alpha_of e =
    (case map_of e ''alpha'' of
       Some (PyInt i) \<Rightarrow> Some (of_int i)
     | Some (PyFloat r) \<Rightarrow> Some r
     | _ \<Rightarrow> None)"

definition has_key :: "pydict \<Rightarrow> string \<Rightarrow> bool" where
  "has_key e k = (map_of e k \<noteq> None)"

definition is_description :: "pydict \<Rightarrow> bool" where
  "is_description e = (case map_of e ''description'' of Some (PyStr d) \<Rightarrow> True | _ \<Rightarrow> False)"

definition is_examples :: "pydict \<Rightarrow> bool" where
  "is_examples e = (case map_of e ''examples'' of Some (PyStrList xs) \<Rightarrow> True | _ \<Rightarrow> False)"

subsection \<open>Retrieval results\<close>

text \<open>
  A \<^verbatim>\<open>NodeWithScore\<close> as the recorded output of cell 6 prints it: a \<^verbatim>\<open>TextNode\<close>
  with the fields of its repr, and a score.
\<close>

record text_node =
  node_id :: string
  embedding :: "rat list option"
  metadata :: pydict
  excluded_embed_metadata_keys :: "string list"
  excluded_llm_metadata_keys :: "string list"
  relationships :: "(string \<times> string) list"
  node_text :: string
  start_char_idx :: "int option"
  end_char_idx :: "int option"
  text_template :: string
  metadata_template :: string
  metadata_seperator :: string

record node_with_score =
  node :: text_node
  score :: rat

definition jurassic_park :: node_with_score where
  "jurassic_park =
    \<lparr>node =
       \<lparr>node_id = ''33'',
        embedding = None,
        metadata =
          [(''box-office'', PyFloat 1113138548.0), (''title'', PyStr ''Jurassic Park''),
           (''year'', PyFloat 1993.0)],
        excluded_embed_metadata_keys = [],
        excluded_llm_metadata_keys = [],
        relationships = [],
        node_text = ''A theme park showcasing genetically engineered dinosaurs turns into a nightmare when the creatures escape their enclosures, forcing the visitors to fight for survival.'',
        start_char_idx = None,
        end_char_idx = None,
        text_template = ''{metadata_str}'' @ [CHR 0x0A, CHR 0x0A] @ ''{content}'',
        metadata_template = ''{key}: {value}'',
        metadata_seperator = [CHR 0x0A]\<rparr>,
     score = 8.0\<rparr>"

definition jurassic_world :: node_with_score where
  "jurassic_world =
    \<lparr>node =
       \<lparr>node_id = ''7'',
        embedding = None,
        metadata =
          [(''box-office'', PyFloat 1671537444.0), (''title'', PyStr ''Jurassic World''),
           (''year'', PyFloat 2015.0)],
        excluded_embed_metadata_keys = [],
        excluded_llm_metadata_keys = [],
        relationships = [],
        node_text = ''Set in a fully functioning dinosaur theme park on Isla Nublar, Jurassic World faces chaos when a genetically engineered dinosaur, the Indominus Rex, escapes. Stars Chris Pratt and Bryce Dallas Howard.'',
        start_char_idx = None,
        end_char_idx = None,
        text_template = ''{metadata_str}'' @ [CHR 0x0A, CHR 0x0A] @ ''{content}'',
        metadata_template = ''{key}: {value}'',
        metadata_seperator = [CHR 0x0A]\<rparr>,
     score = 7.0\<rparr>"

text \<open>The output recorded under cell 6 (the value of \<^verbatim>\<open>results\<close>).\<close>

definition recorded_results :: "node_with_score list" where
  "recorded_results = [jurassic_park, jurassic_world]"

text \<open>The output recorded under cell 7 (the value of \<^verbatim>\<open>str(response)\<close>).\<close>

definition recorded_response :: string where
  "recorded_response = ''Jurassic Park was intended to be a theme park that featured genetically engineered dinosaurs as its main attraction. Visitors were meant to experience the thrill of seeing these creatures up close in a controlled environment. However, due to unforeseen circumstances in the movie's storyline, the dinosaurs escaped their enclosures, leading to chaos and danger for the visitors.''"

subsection \<open>Library objects and calls\<close>

text \<open>
  The objects the notebook obtains from the libraries. None of their classes is in the
  source, so an object is written as the call that made it, with the arguments of that
  call in the order the notebook gives them:
  \<^item> \<^verbatim>\<open>Pinecone(api_key=...)\<close>; the key is what \<^verbatim>\<open>os.environ.get\<close> returned, \<open>None\<close>
    for an unset variable;
  \<^item> \<^verbatim>\<open>pc.Index(name)\<close>;
  \<^item> \<^verbatim>\<open>OpenAI()\<close> and \<^verbatim>\<open>OpenAIEmbedding()\<close>;
  \<^item> \<^verbatim>\<open>PineconeVectorStore(pinecone_index=..., text_key=...)\<close>;
  \<^item> \<^verbatim>\<open>VectorStoreIndex.from_vector_store(vector_store=..., embed_model=...)\<close>;
  \<^item> \<^verbatim>\<open>LLMRerank(llm=...)\<close>;
  \<^item> \<^verbatim>\<open>KodaRetriever(index=..., llm=..., matrix=..., reranker=..., verbose=...)\<close>; the
    reranker is optional;
  \<^item> \<^verbatim>\<open>RetrieverQueryEngine.from_args(retriever=...)\<close>.
\<close>

datatype obj =
    Pinecone "string option"
  | PineconeIndex obj string
  | OpenAI
  | OpenAIEmbedding
  | PineconeVectorStore obj string
  | VectorStoreIndex obj obj
  | LLMRerank obj
  | KodaRetriever obj obj category_table "obj option" bool
  | RetrieverQueryEngine obj

text \<open>
  A call into a library: the construction of an object, \<^verbatim>\<open>retriever.retrieve(query)\<close> or
  \<^verbatim>\<open>query_engine.query(query)\<close>.
\<close>

datatype call =
    Construct obj
  | Retrieve obj string
  | Query obj string

text \<open>
  What stops a cell: a name read before it is bound, or whatever a library call reports
  (the notebook handles no exception).
\<close>

datatype error =
    NameError string
  | BackendError string

text \<open>
  The library behind the calls (Pinecone, OpenAI, the llama-index core and the Koda
  retriever pack itself) is missing from the source, so it is a parameter of the run.
  Nothing is assumed of it. What a call does may depend on every call made before it (the
  first argument of each field is the log of the earlier calls, which stands for whatever
  state the library keeps):
  \<^item> \<open>raises\<close>: whether the call raises, and what;
  \<^item> \<open>retrieve_result\<close>: what \<^verbatim>\<open>retriever.retrieve(query)\<close> returns;
  \<^item> \<open>query_result\<close>: what \<^verbatim>\<open>str\<close> of the answer of \<^verbatim>\<open>query_engine.query(query)\<close> is;
  \<^item> \<open>mutate\<close>: what the call does to the dict that \<^verbatim>\<open>categories\<close> names. Python passes
    the dict itself to \<^verbatim>\<open>KodaRetriever\<close>, not a copy, so that call and every call after it
    can reach the dict and change it in place.
\<close>

record library =
  raises :: "call list \<Rightarrow> call \<Rightarrow> error option"
  retrieve_result :: "call list \<Rightarrow> obj \<Rightarrow> string \<Rightarrow> node_with_score list"
  query_result :: "call list \<Rightarrow> obj \<Rightarrow> string \<Rightarrow> string"
  mutate :: "call list \<Rightarrow> call \<Rightarrow> category_table \<Rightarrow> category_table"

subsection \<open>The notebook's state\<close>

text \<open>
  One field per name the code cells bind (\<open>None\<close> while unbound), the two attributes of
  \<^verbatim>\<open>Settings\<close> the notebook sets, and the log of library calls made so far. The field
  \<open>var_categories\<close> holds the present contents of the dict the name is bound to. A run starts
  from \<open>fresh\<close>, where nothing is bound. Reading an attribute of \<^verbatim>\<open>Settings\<close> that was
  never set is treated like reading an unbound name; the notebook sets both attributes
  before it reads them, so no run from \<open>fresh\<close> takes that branch.
\<close>

record nb_state =
  var_pc :: "obj option"
  var_index :: "obj option"
  settings_llm :: "obj option"
  settings_embed_model :: "obj option"
  var_vector_store :: "obj option"
  var_vector_index :: "obj option"
  var_reranker :: "obj option"
  var_categories :: "category_table option"
  var_retriever :: "obj option"
  var_query :: "string option"
  var_results :: "node_with_score list option"
  var_query_engine :: "obj option"
  var_response :: "string option"
  calls :: "call list"

definition fresh :: nb_state where
  "fresh =
    \<lparr>var_pc = None, var_index = None, settings_llm = None, settings_embed_model = None,
     var_vector_store = None, var_vector_index = None, var_reranker = None,
     var_categories = None, var_retriever = None, var_query = None, var_results = None,
     var_query_engine = None, var_response = None, calls = []\<rparr>"

text \<open>Sequencing with exceptions: the first error ends the run.\<close>

definition thn :: "error + 'a \<Rightarrow> ('a \<Rightarrow> error + 'b) \<Rightarrow> error + 'b" where
  "thn m f = (case m of Inl e \<Rightarrow> Inl e | Inr x \<Rightarrow> f x)"

definition rd :: "string \<Rightarrow> 'a option \<Rightarrow> error + 'a" where
  "rd name v = (case v of None \<Rightarrow> Inl (NameError name) | Some x \<Rightarrow> Inr x)"

text \<open>
  A library call either raises, or is logged and does to the dict what the library does.
  While \<^verbatim>\<open>categories\<close> is unbound there is no dict to change; no library call stands
  between the dict literal of cell 4 and the call of cell 5 that hands the dict over.
\<close>

definition ext :: "library \<Rightarrow> call \<Rightarrow> nb_state \<Rightarrow> error + nb_state" where
  "ext lib c s =
    (case raises lib (calls s) c of
       Some e \<Rightarrow> Inl e
     | None \<Rightarrow>
         Inr (s\<lparr>calls := calls s @ [c],
               var_categories := map_option (mutate lib (calls s) c) (var_categories s)\<rparr>))"

subsection \<open>The statements of the code cells\<close>

text \<open>
  Cell 2 (the imports) binds module names only and is left out. Cell 3:
  \<^verbatim>\<open>pc = Pinecone(api_key=os.environ.get("PINECONE_API_KEY"))\<close>, with the process
  environment as a map.
\<close>

definition stmt_pc :: "(string \<rightharpoonup> string) \<Rightarrow> library \<Rightarrow> nb_state \<Rightarrow> error + nb_state" where
  "stmt_pc env lib s =
    (let x = Pinecone (env ''PINECONE_API_KEY'') in
     thn (ext lib (Construct x) s) (\<lambda>s'. Inr (s'\<lparr>var_pc := Some x\<rparr>)))"

text \<open>\<^verbatim>\<open>index = pc.Index("sample-movies")\<close>\<close>

definition stmt_index :: "library \<Rightarrow> nb_state \<Rightarrow> error + nb_state" where
  "stmt_index lib s =
    thn (rd ''pc'' (var_pc s)) (\<lambda>pc.
      let x = PineconeIndex pc ''sample-movies'' in
      thn (ext lib (Construct x) s) (\<lambda>s'. Inr (s'\<lparr>var_index := Some x\<rparr>)))"

text \<open>\<^verbatim>\<open>Settings.llm = OpenAI()\<close>\<close>

definition stmt_llm :: "library \<Rightarrow> nb_state \<Rightarrow> error + nb_state" where
  "stmt_llm lib s =
    thn (ext lib (Construct OpenAI) s) (\<lambda>s'. Inr (s'\<lparr>settings_llm := Some OpenAI\<rparr>))"

text \<open>\<^verbatim>\<open>Settings.embed_model = OpenAIEmbedding()\<close>\<close>

definition stmt_embed_model :: "library \<Rightarrow> nb_state \<Rightarrow> error + nb_state" where
  "stmt_embed_model lib s =
    thn (ext lib (Construct OpenAIEmbedding) s)
      (\<lambda>s'. Inr (s'\<lparr>settings_embed_model := Some OpenAIEmbedding\<rparr>))"

text \<open>\<^verbatim>\<open>vector_store = PineconeVectorStore(pinecone_index=index, text_key="summary")\<close>\<close>

definition stmt_vector_store :: "library \<Rightarrow> nb_state \<Rightarrow> error + nb_state" where
  "stmt_vector_store lib s =
    thn (rd ''index'' (var_index s)) (\<lambda>i.
      let x = PineconeVectorStore i ''summary'' in
      thn (ext lib (Construct x) s) (\<lambda>s'. Inr (s'\<lparr>var_vector_store := Some x\<rparr>)))"

text \<open>
  \<^verbatim>\<open>vector_index = VectorStoreIndex.from_vector_store(vector_store=vector_store,
  embed_model=Settings.embed_model)\<close>
\<close>

definition stmt_vector_index :: "library \<Rightarrow> nb_state \<Rightarrow> error + nb_state" where
  "stmt_vector_index lib s =
    thn (rd ''vector_store'' (var_vector_store s)) (\<lambda>vs.
    thn (rd ''Settings.embed_model'' (settings_embed_model s)) (\<lambda>em.
      let x = VectorStoreIndex vs em in
      thn (ext lib (Construct x) s) (\<lambda>s'. Inr (s'\<lparr>var_vector_index := Some x\<rparr>))))"

text \<open>\<^verbatim>\<open>reranker = LLMRerank(llm=Settings.llm)  # optional\<close>\<close>

definition stmt_reranker :: "library \<Rightarrow> nb_state \<Rightarrow> error + nb_state" where
  "stmt_reranker lib s =
    thn (rd ''Settings.llm'' (settings_llm s)) (\<lambda>llm.
      let x = LLMRerank llm in
      thn (ext lib (Construct x) s) (\<lambda>s'. Inr (s'\<lparr>var_reranker := Some x\<rparr>)))"

text \<open>Cell 4: \<^verbatim>\<open>categories = { ... }\<close>, the dict literal above.\<close>

definition stmt_categories :: "nb_state \<Rightarrow> error + nb_state" where
  "stmt_categories s = Inr (s\<lparr>var_categories := Some categories\<rparr>)"

text \<open>
  Cell 5: \<^verbatim>\<open>retriever = KodaRetriever(index=vector_index, llm=Settings.llm,
  matrix=categories, reranker=reranker, verbose=True)\<close>
\<close>

definition stmt_retriever :: "library \<Rightarrow> nb_state \<Rightarrow> error + nb_state" where
  "stmt_retriever lib s =
    thn (rd ''vector_index'' (var_vector_index s)) (\<lambda>vi.
    thn (rd ''Settings.llm'' (settings_llm s)) (\<lambda>llm.
    thn (rd ''categories'' (var_categories s)) (\<lambda>m.
    thn (rd ''reranker'' (var_reranker s)) (\<lambda>rr.
      let x = KodaRetriever vi llm m (Some rr) True in
      thn (ext lib (Construct x) s) (\<lambda>s'. Inr (s'\<lparr>var_retriever := Some x\<rparr>))))))"

text \<open>Cell 6: \<^verbatim>\<open>query = "Can you explain the Jurassic Park ..."\<close>\<close>

definition query_literal :: string where
  "query_literal = ''Can you explain the Jurassic Park as a business as it was supposed to operate inside the movie's lore or timeline?''"

definition stmt_query :: "nb_state \<Rightarrow> error + nb_state" where
  "stmt_query s = Inr (s\<lparr>var_query := Some query_literal\<rparr>)"

text \<open>\<^verbatim>\<open>results = retriever.retrieve(query)\<close>\<close>

definition stmt_results :: "library \<Rightarrow> nb_state \<Rightarrow> error + nb_state" where
  "stmt_results lib s =
    thn (rd ''retriever'' (var_retriever s)) (\<lambda>r.
    thn (rd ''query'' (var_query s)) (\<lambda>q.
      thn (ext lib (Retrieve r q) s)
        (\<lambda>s'. Inr (s'\<lparr>var_results := Some (retrieve_result lib (calls s) r q)\<rparr>))))"

text \<open>Cell 7: \<^verbatim>\<open>query_engine = RetrieverQueryEngine.from_args(retriever=retriever)\<close>\<close>

definition stmt_query_engine :: "library \<Rightarrow> nb_state \<Rightarrow> error + nb_state" where
  "stmt_query_engine lib s =
    thn (rd ''retriever'' (var_retriever s)) (\<lambda>r.
      let x = RetrieverQueryEngine r in
      thn (ext lib (Construct x) s) (\<lambda>s'. Inr (s'\<lparr>var_query_engine := Some x\<rparr>)))"

text \<open>\<^verbatim>\<open>response = query_engine.query(query)\<close>, kept as the string \<^verbatim>\<open>str(response)\<close> shows.\<close>

definition stmt_response :: "library \<Rightarrow> nb_state \<Rightarrow> error + nb_state" where
  "stmt_response lib s =
    thn (rd ''query_engine'' (var_query_engine s)) (\<lambda>qe.
    thn (rd ''query'' (var_query s)) (\<lambda>q.
      thn (ext lib (Query qe q) s)
        (\<lambda>s'. Inr (s'\<lparr>var_response := Some (query_result lib (calls s) qe q)\<rparr>))))"

subsection \<open>Running the notebook\<close>

text \<open>The statements of each code cell, and of the notebook from top to bottom.\<close>

definition cell3 ::
  "(string \<rightharpoonup> string) \<Rightarrow> library \<Rightarrow> (nb_state \<Rightarrow> error + nb_state) list" where
  "cell3 env lib =
    [stmt_pc env lib, stmt_index lib, stmt_llm lib, stmt_embed_model lib,
     stmt_vector_store lib, stmt_vector_index lib, stmt_reranker lib]"

definition cell4 :: "(nb_state \<Rightarrow> error + nb_state) list" where
  "cell4 = [stmt_categories]"

definition cell5 :: "library \<Rightarrow> (nb_state \<Rightarrow> error + nb_state) list" where
  "cell5 lib = [stmt_retriever lib]"

definition cell6 :: "library \<Rightarrow> (nb_state \<Rightarrow> error + nb_state) list" where
  "cell6 lib = [stmt_query, stmt_results lib]"

definition cell7 :: "library \<Rightarrow> (nb_state \<Rightarrow> error + nb_state) list" where
  "cell7 lib = [stmt_query_engine lib, stmt_response lib]"

definition statements ::
  "(string \<rightharpoonup> string) \<Rightarrow> library \<Rightarrow> (nb_state \<Rightarrow> error + nb_state) list" where
  "statements env lib = cell3 env lib @ cell4 @ cell5 lib @ cell6 lib @ cell7 lib"

fun run :: "(nb_state \<Rightarrow> error + nb_state) list \<Rightarrow> nb_state \<Rightarrow> error + nb_state" where
  "run [] s = Inr s"
| "run (c # cs) s = thn (c s) (run cs)"

definition run_notebook :: "(string \<rightharpoonup> string) \<Rightarrow> library \<Rightarrow> error + nb_state" where
  "run_notebook env lib = run (statements env lib) fresh"

text \<open>
  The run the notebook records: no call raised, \<^verbatim>\<open>retrieve\<close> and \<^verbatim>\<open>query\<close> returned
  the outputs under cells 6 and 7, and the dict was left as it was. The key itself is not
  recorded; any value will do.
\<close>

definition recorded_library :: library where
  "recorded_library =
    \<lparr>raises = (\<lambda>h c. None),
     retrieve_result = (\<lambda>h r q. recorded_results),
     query_result = (\<lambda>h qe q. recorded_response),
     mutate = (\<lambda>h c t. t)\<rparr>"

definition some_env :: "string \<rightharpoonup> string" where
  "some_env = [''PINECONE_API_KEY'' \<mapsto> ''pc-key'']"

text \<open>Which logged calls are retrievals, and which are query-engine queries.\<close>

fun is_retrieve :: "call \<Rightarrow> bool" where
  "is_retrieve (Retrieve r q) = True"
| "is_retrieve c = False"

fun is_query :: "call \<Rightarrow> bool" where
  "is_query (Query qe q) = True"
| "is_query c = False"

fun is_pinecone :: "call \<Rightarrow> bool" where
  "is_pinecone (Construct (Pinecone k)) = True"
| "is_pinecone c = False"

fun is_koda :: "call \<Rightarrow> bool" where
  "is_koda (Construct (KodaRetriever i l m r v)) = True"
| "is_koda c = False"

text \<open>
  The objects a run that completes has built, and its log of calls: the values of the
  expressions of cells 3 to 7 in the order they are evaluated.
\<close>

definition pinecone_client :: "(string \<rightharpoonup> string) \<Rightarrow> obj" where
  "pinecone_client env = Pinecone (env ''PINECONE_API_KEY'')"

definition koda_retriever :: "(string \<rightharpoonup> string) \<Rightarrow> obj" where
  "koda_retriever env =
    KodaRetriever
      (VectorStoreIndex
        (PineconeVectorStore (PineconeIndex (pinecone_client env) ''sample-movies'') ''summary'')
        OpenAIEmbedding)
      OpenAI categories (Some (LLMRerank OpenAI)) True"

definition call_log :: "(string \<rightharpoonup> string) \<Rightarrow> call list" where
  "call_log env =
    [Construct (pinecone_client env),
     Construct (PineconeIndex (pinecone_client env) ''sample-movies''),
     Construct OpenAI,
     Construct OpenAIEmbedding,
     Construct (PineconeVectorStore (PineconeIndex (pinecone_client env) ''sample-movies'') ''summary''),
     Construct (VectorStoreIndex
        (PineconeVectorStore (PineconeIndex (pinecone_client env) ''sample-movies'') ''summary'')
        OpenAIEmbedding),
     Construct (LLMRerank OpenAI),
     Construct (koda_retriever env),
     Retrieve (koda_retriever env) query_literal,
     Construct (RetrieverQueryEngine (koda_retriever env)),
     Query (RetrieverQueryEngine (koda_retriever env)) query_literal]"

text \<open>The table and the reranker a retriever was constructed with.\<close>

fun matrix_of :: "obj \<Rightarrow> category_table option" where
  "matrix_of (KodaRetriever i l m r v) = Some m"
| "matrix_of x = None"

fun reranker_of :: "obj \<Rightarrow> obj option" where
  "reranker_of (KodaRetriever i l m r v) = r"
| "reranker_of x = None"

subsection \<open>The design-level components of the spec\<close>

text \<open>
  The category table in the spec's data model: a mapping from a category name to a record
  of an alpha, an optional description and an optional list of examples. \<open>table_of\<close>
  reads a dict of the notebook's form as such a mapping.
\<close>

record category =
  alpha :: rat
  description :: "string option"
  examples :: "string list option"

definition entry_of :: "pydict \<Rightarrow> category option" where
  "entry_of e =
    (case alpha_of e of
       None \<Rightarrow> None
     | Some a \<Rightarrow>
         Some \<lparr>alpha = a,
           description = (case map_of e ''description'' of Some (PyStr d) \<Rightarrow> Some d | _ \<Rightarrow> None),
           examples = (case map_of e ''examples'' of Some (PyStrList xs) \<Rightarrow> Some xs | _ \<Rightarrow> None)\<rparr>)"

definition table_of :: "category_table \<Rightarrow> (string \<rightharpoonup> category)" where
  "table_of t label = (case map_of t label of None \<Rightarrow> None | Some e \<Rightarrow> entry_of e)"

datatype failure = ConfigurationError string

text \<open>
  Modelled from the spec: the alpha resolver, which is part of the retriever pack and
  missing from the source. The spec: "a pure function table lookup; fails with a
  configuration error if a label has no entry."
\<close>

definition resolve_alpha :: "(string \<rightharpoonup> category) \<Rightarrow> string \<Rightarrow> failure + rat" where
  "resolve_alpha table label =
    (case table label of
       None \<Rightarrow> Inl (ConfigurationError label)
     | Some e \<Rightarrow> Inr (alpha e))"

text \<open>
  Modelled from the spec: the category classifier, which is part of the retriever pack and
  missing from the source. The spec: "given a query and the category table, returns a
  category label; on ambiguous input it would fail by returning a default category rather
  than erroring." The spec fixes neither which inputs are ambiguous, nor how a label is
  chosen otherwise, nor which category is the default: they are the three fields of a
  classifier.
\<close>

record classifier =
  ambiguous :: "string \<Rightarrow> (string \<rightharpoonup> category) \<Rightarrow> bool"
  decide :: "string \<Rightarrow> (string \<rightharpoonup> category) \<Rightarrow> string"
  default_category :: string

definition classify :: "classifier \<Rightarrow> string \<Rightarrow> (string \<rightharpoonup> category) \<Rightarrow> failure + string" where
  "classify c q table =
    (if ambiguous c q table then Inr (default_category c) else Inr (decide c q table))"



text \<open>
  Modelled from the spec: the retrieval operation, which is part of the retriever pack and
  the llama-index core and missing from the source. The spec: the invoker "issues a single
  retrieval request against an external vector/keyword hybrid index using the resolved
  weight, optionally passing results through an external reranker"; a reranker is "a
  secondary scoring pass (often LLM-based) applied to an initial retrieval result set to
  reorder by finer-grained relevance"; the control flow ends in "ranked results". The
  external index and the scoring pass are parameters. \<open>ranked\<close> says that the scores do
  not increase along a result; \<open>rank\<close> puts a result in that order.
\<close>

definition ranked :: "node_with_score list \<Rightarrow> bool" where
  "ranked rs = sorted_wrt (\<lambda>a b. score b \<le> score a) rs"

definition rank :: "node_with_score list \<Rightarrow> node_with_score list" where
  "rank rs = sort_key (\<lambda>n. - score n) rs"







section \<open>Properties\<close>

subsection \<open>Sequencing, the run and its frame\<close>




lemmas stmt_defs = stmt_pc_def stmt_index_def stmt_llm_def stmt_embed_model_def
  stmt_vector_store_def stmt_vector_index_def stmt_reranker_def stmt_categories_def
  stmt_retriever_def stmt_query_def stmt_results_def stmt_query_engine_def stmt_response_def

lemmas cell_defs = cell3_def cell4_def cell5_def cell6_def cell7_def statements_def

lemma run_notebook_completed:
  assumes "run_notebook env lib = Inr s"
  shows "calls s = call_log env \<and> var_retriever s = Some (koda_retriever env)
    \<and> var_pc s = Some (pinecone_client env)
    \<and> var_results s =
      Some (retrieve_result lib (take 8 (call_log env)) (koda_retriever env) query_literal)"
  using assms
  unfolding run_notebook_def cell_defs stmt_defs fresh_def call_log_def koda_retriever_def
    pinecone_client_def
  by (auto simp: Let_def thn_def rd_def ext_def split: option.splits sum.splits)

lemma recorded_run: "\<exists>s. run_notebook some_env recorded_library = Inr s"
  unfolding run_notebook_def cell_defs stmt_defs fresh_def recorded_library_def
  by (simp add: Let_def thn_def rd_def ext_def)












subsection \<open>The claims\<close>

text \<open>
  C1. The table of cell 4 has exactly the three keys "concept seeking query", "fact seeking
  query" and "queries with misspellings", in this order, with the alpha values 0.2, 0.6
  and 1; and in every run of the notebook that completes, the one \<^verbatim>\<open>KodaRetriever\<close>
  constructed, which the name \<^verbatim>\<open>retriever\<close> is bound to, has this table as its matrix.
\<close>

theorem categories_table_and_matrix:
  assumes "run_notebook env lib = Inr s"
  shows "map fst categories =
      [''concept seeking query'', ''fact seeking query'', ''queries with misspellings''] \<and>
    map (\<lambda>(k, e). map_of e ''alpha'') categories =
      [Some (PyFloat 0.2), Some (PyFloat 0.6), Some (PyInt 1)] \<and>
    map (\<lambda>(k, e). alpha_of e) categories = [Some 0.2, Some 0.6, Some 1] \<and>
    (\<exists>r. var_retriever s = Some r \<and> filter is_koda (calls s) = [Construct r] \<and>
       matrix_of r = Some categories)"
proof -
  have "map fst categories =
      [''concept seeking query'', ''fact seeking query'', ''queries with misspellings'']"
    by (simp add: categories_def)
  moreover have "map (\<lambda>(k, e). map_of e ''alpha'') categories =
      [Some (PyFloat 0.2), Some (PyFloat 0.6), Some (PyInt 1)]"
    by (simp add: categories_def)
  moreover have "map (\<lambda>(k, e). alpha_of e) categories = [Some 0.2, Some 0.6, Some 1]"
    by (simp add: categories_def alpha_of_def)
  moreover have "var_retriever s = Some (koda_retriever env)"
    using run_notebook_completed [OF assms] by simp
  moreover have "filter is_koda (calls s) = [Construct (koda_retriever env)]"
    using run_notebook_completed [OF assms]
    by (simp add: call_log_def koda_retriever_def pinecone_client_def)
  moreover have "matrix_of (koda_retriever env) = Some categories"
    by (simp add: koda_retriever_def)
  ultimately show ?thesis by blast
qed

theorem categories_table_and_matrix_witness:
  "\<exists>s. run_notebook some_env recorded_library = Inr s \<and>
     (\<exists>r. var_retriever s = Some r \<and> filter is_koda (calls s) = [Construct r] \<and>
        matrix_of r = Some categories)"
proof -
  obtain s where s: "run_notebook some_env recorded_library = Inr s"
    using recorded_run ..
  from categories_table_and_matrix [OF s] s show ?thesis
    by blast
qed

text \<open>
  C2. Every entry of the category table has an alpha, and it lies between 0 and 1
  inclusive.
\<close>

theorem alpha_in_unit_interval:
  "\<forall>e \<in> set (map snd categories).
     (case alpha_of e of None \<Rightarrow> False | Some a \<Rightarrow> 0 \<le> a \<and> a \<le> 1)"
  by (simp add: categories_def alpha_of_def)

theorem alpha_in_unit_interval_witness:
  "snd (categories ! 1) \<in> set (map snd categories) \<and>
   alpha_of (snd (categories ! 1)) = Some 0.6 \<and>
   (case alpha_of (snd (categories ! 1)) of None \<Rightarrow> False | Some a \<Rightarrow> 0 \<le> a \<and> a \<le> 1)"
proof -
  have m: "snd (categories ! 1) \<in> set (map snd categories)"
    by (simp add: categories_def)
  have "alpha_of (snd (categories ! 1)) = Some 0.6"
    by (simp add: categories_def alpha_of_def)
  with m alpha_in_unit_interval [THEN bspec, OF m] show ?thesis
    by blast
qed

text \<open>
  C3. The table has three entries. Each of them has the key "alpha", holding a number; has
  the key "description" exactly when it has the key "examples"; and has both, the first
  holding a string and the second a list of strings.
\<close>

theorem entries_carry_alpha_description_examples:
  "length categories = 3 \<and>
   (\<forall>e \<in> set (map snd categories).
      has_key e ''alpha'' \<and> \<not> Option.is_none (alpha_of e) \<and>
      (has_key e ''description'' = has_key e ''examples'') \<and>
      is_description e \<and> is_examples e)"
  by (simp add: categories_def alpha_of_def has_key_def is_description_def is_examples_def)

theorem entries_carry_alpha_description_examples_witness:
  "snd (categories ! 2) \<in> set (map snd categories) \<and>
   has_key (snd (categories ! 2)) ''alpha'' \<and> \<not> Option.is_none (alpha_of (snd (categories ! 2))) \<and>
   (has_key (snd (categories ! 2)) ''description'' = has_key (snd (categories ! 2)) ''examples'') \<and>
   is_description (snd (categories ! 2)) \<and> is_examples (snd (categories ! 2))"
proof -
  have m: "snd (categories ! 2) \<in> set (map snd categories)"
    by (simp add: categories_def)
  from entries_carry_alpha_description_examples [THEN conjunct2, THEN bspec, OF m] m
  show ?thesis by simp
qed





text \<open>
  C6. In every run of the notebook that completes, the log of library calls holds exactly
  one \<^verbatim>\<open>retrieve\<close> call and exactly one \<^verbatim>\<open>query\<close> call, and both are given the query string
  of cell 6.
\<close>

theorem one_retrieval_one_query_same_string:
  assumes "run_notebook env lib = Inr s"
  shows "\<exists>r qe. filter is_retrieve (calls s) = [Retrieve r query_literal] \<and>
    filter is_query (calls s) = [Query qe query_literal]"
  using run_notebook_completed [OF assms]
  by (simp add: call_log_def koda_retriever_def pinecone_client_def)

theorem one_retrieval_one_query_same_string_witness:
  "\<exists>s. run_notebook some_env recorded_library = Inr s \<and>
     (\<exists>r qe. filter is_retrieve (calls s) = [Retrieve r query_literal] \<and>
        filter is_query (calls s) = [Query qe query_literal])"
proof -
  obtain s where s: "run_notebook some_env recorded_library = Inr s"
    using recorded_run ..
  from one_retrieval_one_query_same_string [OF s] s show ?thesis
    by blast
qed

text \<open>
  C7. The alpha resolver is a lookup in the table: for a label with no entry it fails with
  a configuration error, and for a label with an entry it returns the alpha of that entry.
\<close>

theorem resolve_alpha_lookup:
  "(label \<notin> dom table \<longrightarrow> resolve_alpha table label = Inl (ConfigurationError label)) \<and>
   (\<forall>c. table label = Some c \<longrightarrow> resolve_alpha table label = Inr (alpha c))"
  by (auto simp: resolve_alpha_def dom_def split: option.splits)

theorem resolve_alpha_lookup_witness:
  "''navigational query'' \<notin> dom (table_of categories) \<and>
   resolve_alpha (table_of categories) ''navigational query'' =
     Inl (ConfigurationError ''navigational query'') \<and>
   (\<exists>c. table_of categories ''fact seeking query'' = Some c \<and> alpha c = 0.6 \<and>
      resolve_alpha (table_of categories) ''fact seeking query'' = Inr (alpha c))"
proof -
  have n: "''navigational query'' \<notin> dom (table_of categories)"
    by (simp add: dom_def table_of_def categories_def)
  have "\<exists>c. table_of categories ''fact seeking query'' = Some c \<and> alpha c = 0.6"
    by (simp add: table_of_def categories_def entry_of_def alpha_of_def)
  then obtain c where c: "table_of categories ''fact seeking query'' = Some c" "alpha c = 0.6"
    by blast
  from resolve_alpha_lookup [of "''navigational query''" "table_of categories"] n
  have "resolve_alpha (table_of categories) ''navigational query'' =
      Inl (ConfigurationError ''navigational query'')"
    by blast
  moreover from resolve_alpha_lookup [of "''fact seeking query''" "table_of categories"] c
  have "resolve_alpha (table_of categories) ''fact seeking query'' = Inr (alpha c)"
    by blast
  ultimately show ?thesis using n c by blast
qed

text \<open>
  C8. On a query that is ambiguous the classifier returns the default category, and so
  does not fail.
\<close>

theorem classify_ambiguous_default:
  assumes "ambiguous c q table"
  shows "classify c q table = Inr (default_category c)"
  using assms by (simp add: classify_def)

theorem classify_ambiguous_default_witness:
  "ambiguous
     \<lparr>ambiguous = (\<lambda>q t. q = []), decide = (\<lambda>q t. ''fact seeking query''),
      default_category = ''concept seeking query''\<rparr> [] (table_of categories) \<and>
   classify
     \<lparr>ambiguous = (\<lambda>q t. q = []), decide = (\<lambda>q t. ''fact seeking query''),
      default_category = ''concept seeking query''\<rparr> [] (table_of categories)
     = Inr ''concept seeking query''"
  using classify_ambiguous_default
    [of "\<lparr>ambiguous = (\<lambda>q t. q = []), decide = (\<lambda>q t. ''fact seeking query''),
      default_category = ''concept seeking query''\<rparr>" "[]" "table_of categories"]
  by simp

text \<open>
  C9. In every run of the notebook that completes, the one Pinecone client constructed,
  which the name \<^verbatim>\<open>pc\<close> is bound to, was given as its API key the value of the
  environment variable \<^verbatim>\<open>PINECONE_API_KEY\<close> (\<open>None\<close> when it is unset).
\<close>

theorem pinecone_key_from_environment:
  assumes "run_notebook env lib = Inr s"
  shows "filter is_pinecone (calls s) = [Construct (Pinecone (env ''PINECONE_API_KEY''))] \<and>
    var_pc s = Some (Pinecone (env ''PINECONE_API_KEY''))"
  using run_notebook_completed [OF assms]
  by (simp add: call_log_def koda_retriever_def pinecone_client_def)

theorem pinecone_key_from_environment_witness:
  "\<exists>s. run_notebook some_env recorded_library = Inr s \<and>
     filter is_pinecone (calls s) = [Construct (Pinecone (Some ''pc-key''))] \<and>
     var_pc s = Some (Pinecone (Some ''pc-key''))"
proof -
  obtain s where s: "run_notebook some_env recorded_library = Inr s"
    using recorded_run ..
  from pinecone_key_from_environment [OF s] s show ?thesis
    by (auto simp: some_env_def)
qed

text \<open>
  C10. In every run of the notebook that completes, the retriever was constructed with the
  LLM reranker; and every score of the retrieval output recorded under cell 6 is strictly
  greater than 1, so it is not a similarity normalised to the interval from 0 to 1.
\<close>

theorem reranked_scores_above_one:
  assumes "run_notebook env lib = Inr s"
  shows "(\<exists>r. var_retriever s = Some r \<and> reranker_of r = Some (LLMRerank OpenAI)) \<and>
    (\<forall>n \<in> set recorded_results. 1 < score n)"
proof -
  have "var_retriever s = Some (koda_retriever env)"
    using run_notebook_completed [OF assms] by simp
  moreover have "reranker_of (koda_retriever env) = Some (LLMRerank OpenAI)"
    by (simp add: koda_retriever_def)
  moreover have "\<forall>n \<in> set recorded_results. 1 < score n"
    by (simp add: recorded_results_def jurassic_park_def jurassic_world_def)
  ultimately show ?thesis by blast
qed

theorem reranked_scores_above_one_witness:
  "\<exists>s. run_notebook some_env recorded_library = Inr s \<and>
     var_results s = Some recorded_results \<and>
     (\<exists>r. var_retriever s = Some r \<and> reranker_of r = Some (LLMRerank OpenAI)) \<and>
     jurassic_world \<in> set recorded_results \<and> 1 < score jurassic_world"
proof -
  have "\<exists>s. run_notebook some_env recorded_library = Inr s \<and>
      var_results s = Some recorded_results"
    unfolding run_notebook_def cell_defs stmt_defs fresh_def recorded_library_def
    by (simp add: Let_def thn_def rd_def ext_def)
  then obtain s where s: "run_notebook some_env recorded_library = Inr s"
      "var_results s = Some recorded_results"
    by blast
  have m: "jurassic_world \<in> set recorded_results"
    by (simp add: recorded_results_def)
  from reranked_scores_above_one [OF s(1)] s m show ?thesis
    by blast
qed

end
